theory Spec2Isabelle
  imports Complex_Main "HOL-Library.Multiset"
begin

section \<open>Data model of crud/MatchResult.py\<close>

text \<open>
  The ORM classes, the pydantic schema and the enums are imported by the module from
  packages that lie outside \<^verbatim>\<open>src/\<close>. Their columns are taken from the attribute
  accesses of the module and from section 3 of the specification. Every field carries
  a short prefix naming its record, since several tables share column names
  (\<^verbatim>\<open>id\<close>, \<^verbatim>\<open>job_description_id\<close>).
\<close>

type_synonym datetime = nat

text \<open>
  An enum member is its name and its value. Of \<^verbatim>\<open>ConsultantEnum\<close> the module names
  one member, \<^verbatim>\<open>unavailable\<close>. The availability attribute is, as the module puts it,
  an "Enum or str".
\<close>

datatype ConsultantEnum = ConsultantEnum (enum_name: string) (enum_value: string)

datatype availability = Enum ConsultantEnum | Str string

datatype WorkflowProgressEnum = PROCESSING | COMPLETED

record JobDescription =
  jd_id :: int
  jd_requestor_email :: string

record ConsultantProfile =
  cp_id :: int
  cp_name :: string
  cp_skills :: string
  cp_experience :: int
  cp_location :: string
  cp_availability :: availability

record WorkflowStatus =
  ws_id :: int
  ws_job_description_id :: int
  ws_steps :: "(string \<times> bool) list"
  ws_progress :: WorkflowProgressEnum

record MatchResult =
  mr_id :: int
  mr_job_description_id :: int
  mr_consultant_id :: int
  mr_rank :: int
  mr_similarity_score :: real
  mr_matched_at :: "datetime option"

record Notification =
  nt_id :: int
  nt_job_description_id :: int
  nt_recipient_email :: string
  nt_workflow_status_id :: int
  nt_email_content :: "string option"
  nt_status :: string
  nt_sent_at :: datetime

text \<open>
  \<^verbatim>\<open>MatchResultSchema\<close> is declared in \<^verbatim>\<open>schema/MatchResult.py\<close>, outside \<^verbatim>\<open>src/\<close>.
  Section 3 of the specification says that the identifier is assigned by the store on
  creation, so the schema is taken to carry the remaining columns of a match.
\<close>

record MatchResultSchema =
  s_job_description_id :: int
  s_consultant_id :: int
  s_rank :: int
  s_similarity_score :: real
  s_matched_at :: "datetime option"

text \<open>The database behind the session: one list of rows per table, in storage order.\<close>

record db =
  job_descriptions :: "JobDescription list"
  consultant_profiles :: "ConsultantProfile list"
  workflow_statuses :: "WorkflowStatus list"
  match_results :: "MatchResult list"
  notifications :: "Notification list"

subsection \<open>Exceptions, logging, outcomes\<close>

datatype HTTPException = HTTPException (status_code: nat) (detail: string)

definition HTTP_404_NOT_FOUND :: nat where
  "HTTP_404_NOT_FOUND = 404"

definition HTTP_500_INTERNAL_SERVER_ERROR :: nat where
  "HTTP_500_INTERNAL_SERVER_ERROR = 500"

text \<open>
  What a \<^verbatim>\<open>try\<close> body can raise: an \<^verbatim>\<open>HTTPException\<close>, or any other Python
  exception (named by its class). Both are subclasses of \<^verbatim>\<open>Exception\<close>.
\<close>

datatype exn = HTTP HTTPException | PyError string

text \<open>
  Log records and \<^verbatim>\<open>print\<close> lines, in the order they are emitted. The text of an
  f-string is kept with its placeholders unexpanded.
\<close>

datatype level = DEBUG | INFO | WARNING | ERROR | STDOUT

type_synonym log_entry = "level \<times> string"

text \<open>
  Every operation yields the database it leaves behind, the lines it logged, and either
  the exception that reaches the caller or the returned value.
\<close>

record ('e, 'a) outcome =
  store :: db
  logs :: "log_entry list"
  result :: "'e + 'a"

text \<open>What a call of an external collaborator does: it returns, or it raises.\<close>

datatype 'a call = Returns 'a | Raises string

text \<open>
  The value of \<^verbatim>\<open>run_agent_matching\<close>: a falsy value (\<^verbatim>\<open>None\<close>), or a dictionary read
  through \<^verbatim>\<open>result.get("message")\<close> and \<^verbatim>\<open>result.get("all_matches", [])\<close>. Every match
  holds a profile object and a similarity score.
\<close>

record match =
  m_profile :: ConsultantProfile
  m_similarity_score :: real

datatype matching = NoResult | Result "string option" "match list"

text \<open>
  The collaborators of the module: the matching routine, the email sender, the clock
  (\<^verbatim>\<open>datetime.now()\<close>), the timestamp the store gives a match created without one, and
  \<^verbatim>\<open>datetime.isoformat\<close>.
\<close>

record ext =
  run_agent_matching :: "db \<Rightarrow> JobDescription option \<Rightarrow> ConsultantProfile list \<Rightarrow> matching call"
  send_email :: "string \<Rightarrow> string \<Rightarrow> string option \<Rightarrow> unit call"
  now :: datetime
  matched_at_default :: "datetime option"
  isoformat :: "datetime \<Rightarrow> string"

subsection \<open>The two handler shapes\<close>

text \<open>
  \<^verbatim>\<open>except HTTPException as http_exc: raise http_exc\<close> followed by
  \<^verbatim>\<open>except Exception as e: logger.error(...); raise HTTPException(500, ...)\<close>.
\<close>

definition except_HTTPException_except_Exception ::
  "string \<Rightarrow> string \<Rightarrow> (exn, 'a) outcome \<Rightarrow> (HTTPException, 'a) outcome" where
  "except_HTTPException_except_Exception msg dtl out =
     (case result out of
        Inr v \<Rightarrow> \<lparr>store = store out, logs = logs out, result = Inr v\<rparr>
      | Inl (HTTP http_exc) \<Rightarrow> \<lparr>store = store out, logs = logs out, result = Inl http_exc\<rparr>
      | Inl (PyError e) \<Rightarrow>
          \<lparr>store = store out, logs = logs out @ [(ERROR, msg)],
           result = Inl (HTTPException HTTP_500_INTERNAL_SERVER_ERROR dtl)\<rparr>)"

text \<open>
  \<^verbatim>\<open>except Exception as e: logger.error(...); raise HTTPException(500, ...)\<close> alone: an
  \<^verbatim>\<open>HTTPException\<close> raised in the body is an \<^verbatim>\<open>Exception\<close> and is caught as well.
\<close>

definition except_Exception ::
  "string \<Rightarrow> string \<Rightarrow> (exn, 'a) outcome \<Rightarrow> (HTTPException, 'a) outcome" where
  "except_Exception msg dtl out =
     (case result out of
        Inr v \<Rightarrow> \<lparr>store = store out, logs = logs out, result = Inr v\<rparr>
      | Inl e \<Rightarrow>
          \<lparr>store = store out, logs = logs out @ [(ERROR, msg)],
           result = Inl (HTTPException HTTP_500_INTERNAL_SERVER_ERROR dtl)\<rparr>)"

subsection \<open>Session operations\<close>

text \<open>The identifier an autoincrement column gives the next inserted row.\<close>

definition next_id :: "int list \<Rightarrow> int" where
  "next_id ids = fold max ids 0 + 1"

text \<open>\<^verbatim>\<open>MatchResultSchema.model_validate(row)\<close> reads the schema's fields off the row.\<close>

definition model_validate :: "MatchResult \<Rightarrow> MatchResultSchema" where
  "model_validate r =
     \<lparr>s_job_description_id = mr_job_description_id r,
      s_consultant_id = mr_consultant_id r,
      s_rank = mr_rank r,
      s_similarity_score = mr_similarity_score r,
      s_matched_at = mr_matched_at r\<rparr>"

text \<open>
  \<^verbatim>\<open>for key, value in match_result_request.model_dump().items(): setattr(result, key, value)\<close>
\<close>

definition setattr_items :: "MatchResult \<Rightarrow> MatchResultSchema \<Rightarrow> MatchResult" where
  "setattr_items r req =
     r\<lparr>mr_job_description_id := s_job_description_id req,
       mr_consultant_id := s_consultant_id req,
       mr_rank := s_rank req,
       mr_similarity_score := s_similarity_score req,
       mr_matched_at := s_matched_at req\<rparr>"

section \<open>The read operations\<close>

text \<open>
  A query is evaluated on the table's rows: \<^verbatim>\<open>filter\<close> keeps the matching rows,
  \<^verbatim>\<open>first()\<close> is the first of them, \<^verbatim>\<open>order_by(MatchResult.rank.asc())\<close> sorts by
  rank (rows of equal rank stay in storage order). The store is taken as SQLite:
  \<^verbatim>\<open>limit(n)\<close> hands the Python integer to \<^verbatim>\<open>LIMIT\<close> unchecked, which keeps the first
  \<open>n\<close> rows and, for a negative \<open>n\<close>, all of them; integer columns hold signed 64-bit
  values; references between tables are not enforced.
\<close>

definition limit_rows :: "int \<Rightarrow> 'a list \<Rightarrow> 'a list" where
  "limit_rows n rows = (if n < 0 then rows else take (nat n) rows)"

definition get_match_result_by_id_try :: "db \<Rightarrow> int \<Rightarrow> (exn, MatchResultSchema) outcome" where
  "get_match_result_by_id_try d i =
     (let l = [(DEBUG, ''Fetching match result with ID: {id}.'')] in
      case find (\<lambda>r. mr_id r = i) (match_results d) of
        None \<Rightarrow>
          \<lparr>store = d, logs = l @ [(WARNING, ''Match result with ID {id} not found.'')],
           result = Inl (HTTP (HTTPException HTTP_404_NOT_FOUND ''Match result not found.''))\<rparr>
      | Some r \<Rightarrow>
          \<lparr>store = d,
           logs = l @ [(INFO, ''Successfully fetched match result with ID: {id}.'')],
           result = Inr (model_validate r)\<rparr>)"

definition get_match_result_by_id :: "db \<Rightarrow> int \<Rightarrow> (HTTPException, MatchResultSchema) outcome" where
  "get_match_result_by_id d i =
     except_HTTPException_except_Exception
       ''Error occurred while fetching match result by ID {id}: {e}''
       ''An error occurred while fetching the match result.''
       (get_match_result_by_id_try d i)"

definition get_match_results_by_job_description_id_try ::
  "db \<Rightarrow> int \<Rightarrow> (exn, MatchResultSchema list) outcome" where
  "get_match_results_by_job_description_id_try d job_description_id =
     (let l = [(DEBUG, ''Fetching match results for job description ID: {job_description_id}.'')];
          rows = filter (\<lambda>r. mr_job_description_id r = job_description_id) (match_results d)
      in if rows = [] then
           \<lparr>store = d,
            logs = l @ [(WARNING, ''No match results found for job description ID: {job_description_id}.'')],
            result = Inl (HTTP (HTTPException HTTP_404_NOT_FOUND
                       ''No match results found for the given job description ID.''))\<rparr>
         else
           \<lparr>store = d,
            logs = l @ [(INFO, ''Successfully fetched match results for job description ID: {job_description_id}.'')],
            result = Inr (map model_validate rows)\<rparr>)"

definition get_match_results_by_job_description_id ::
  "db \<Rightarrow> int \<Rightarrow> (HTTPException, MatchResultSchema list) outcome" where
  "get_match_results_by_job_description_id d job_description_id =
     except_HTTPException_except_Exception
       ''Error occurred while fetching match results for job description ID {job_description_id}: {e}''
       ''An error occurred while fetching match results for the job description ID.''
       (get_match_results_by_job_description_id_try d job_description_id)"

text \<open>The query of both top-n operations: the first \<open>n\<close> rows of the job by ascending rank.\<close>

definition top_rows :: "db \<Rightarrow> int \<Rightarrow> int \<Rightarrow> MatchResult list" where
  "top_rows d job_description_id n =
     limit_rows n (sort_key mr_rank
       (filter (\<lambda>r. mr_job_description_id r = job_description_id) (match_results d)))"

definition get_top_match_results_by_job_description_id_try ::
  "db \<Rightarrow> int \<Rightarrow> int \<Rightarrow> (exn, MatchResultSchema list) outcome" where
  "get_top_match_results_by_job_description_id_try d job_description_id top_n =
     (let l = [(DEBUG, ''Fetching top {top_n} match results for job description ID: {job_description_id}.'')];
          rows = top_rows d job_description_id top_n
      in if rows = [] then
           \<lparr>store = d,
            logs = l @ [(WARNING, ''No match results found for job description ID: {job_description_id}.'')],
            result = Inl (HTTP (HTTPException HTTP_404_NOT_FOUND
                       ''No match results found for the given job description ID.''))\<rparr>
         else
           \<lparr>store = d,
            logs = l @ [(INFO, ''Successfully fetched top {top_n} match results for job description ID: {job_description_id}.'')],
            result = Inr (map model_validate rows)\<rparr>)"

definition get_top_match_results_by_job_description_id ::
  "db \<Rightarrow> int \<Rightarrow> int \<Rightarrow> (HTTPException, MatchResultSchema list) outcome" where
  "get_top_match_results_by_job_description_id d job_description_id top_n =
     except_HTTPException_except_Exception
       ''Error occurred while fetching top match results for job description ID {job_description_id}: {e}''
       ''An error occurred while fetching top match results for the job description ID.''
       (get_top_match_results_by_job_description_id_try d job_description_id top_n)"

text \<open>
  The dictionaries built by \<^verbatim>\<open>get_top_3_matches\<close>. The availability of a consultant is
  rendered as the member's \<^verbatim>\<open>value\<close> when it is an enum member (which has the
  attribute \<^verbatim>\<open>value\<close>, so the \<^verbatim>\<open>name\<close> branch is never taken) and by \<^verbatim>\<open>str\<close>
  otherwise.
\<close>

record 'a profile_dict =
  pd_id :: int
  pd_name :: string
  pd_skills :: string
  pd_experience :: int
  pd_location :: string
  pd_availability :: 'a

record top_match =
  tm_profile :: "string profile_dict option"
  tm_similarity_score :: real
  tm_rank :: int
  tm_ranked_at :: "string option"

definition availability_str :: "availability \<Rightarrow> string" where
  "availability_str a = (case a of Enum e \<Rightarrow> enum_value e | Str s \<Rightarrow> s)"

definition consultant_data :: "ConsultantProfile \<Rightarrow> string profile_dict" where
  "consultant_data consultant =
     \<lparr>pd_id = cp_id consultant, pd_name = cp_name consultant,
      pd_skills = cp_skills consultant, pd_experience = cp_experience consultant,
      pd_location = cp_location consultant,
      pd_availability = availability_str (cp_availability consultant)\<rparr>"

text \<open>The body of the loop over \<^verbatim>\<open>top_3_profiles\<close>: the entry appended for one match row.\<close>

definition serialize_top :: "ext \<Rightarrow> db \<Rightarrow> MatchResult \<Rightarrow> top_match" where
  "serialize_top x d profile =
     (let consultant = find (\<lambda>c. cp_id c = mr_consultant_id profile) (consultant_profiles d)
      in \<lparr>tm_profile = (case consultant of Some c \<Rightarrow> Some (consultant_data c) | None \<Rightarrow> None),
          tm_similarity_score = mr_similarity_score profile,
          tm_rank = mr_rank profile,
          tm_ranked_at = (case mr_matched_at profile of Some t \<Rightarrow> Some (isoformat x t)
                          | None \<Rightarrow> None)\<rparr>)"

definition get_top_3_matches_try :: "ext \<Rightarrow> db \<Rightarrow> int \<Rightarrow> (exn, top_match list) outcome" where
  "get_top_3_matches_try x d jd_id' =
     (let l = [(DEBUG, ''Fetching top 3 results with full profile details'')];
          top_3_profiles = top_rows d jd_id' 3
      in \<lparr>store = d, logs = l, result = Inr (map (serialize_top x d) top_3_profiles)\<rparr>)"

definition get_top_3_matches :: "ext \<Rightarrow> db \<Rightarrow> int \<Rightarrow> (HTTPException, top_match list) outcome" where
  "get_top_3_matches x d jd_id' =
     except_HTTPException_except_Exception
       ''Error occurred while fetching match result by ID {jd_id}: {e}''
       ''An error occurred while fetching the match result.''
       (get_top_3_matches_try x d jd_id')"

section \<open>Update and delete\<close>

text \<open>
  \<^verbatim>\<open>db.add(result); db.commit()\<close> on a loaded row writes its attributes to the rows
  with its primary key; \<^verbatim>\<open>db.delete(result); db.commit()\<close> removes the rows with its
  primary key. The commit of an update raises when an integer it has to write does not
  fit the store's signed 64-bit integer column (\<^verbatim>\<open>OverflowError\<close>), and then writes
  nothing. A score is a real number: the not-a-number float, which the store does not
  hold, is outside the model.
\<close>

definition in_integer_range :: "int \<Rightarrow> bool" where
  "in_integer_range v = (- (2 ^ 63) \<le> v \<and> v < 2 ^ 63)"

definition storable :: "MatchResultSchema \<Rightarrow> bool" where
  "storable req =
     (in_integer_range (s_job_description_id req) \<and>
      in_integer_range (s_consultant_id req) \<and>
      in_integer_range (s_rank req))"

definition update_match_result_by_id_try ::
  "db \<Rightarrow> int \<Rightarrow> MatchResultSchema \<Rightarrow> (exn, MatchResultSchema) outcome" where
  "update_match_result_by_id_try d i match_result_request =
     (let l = [(DEBUG, ''Attempting to update match result with ID: {id}.'')] in
      case find (\<lambda>r. mr_id r = i) (match_results d) of
        None \<Rightarrow>
          \<lparr>store = d,
           logs = l @ [(WARNING, ''Match result with ID {id} not found for update.'')],
           result = Inl (HTTP (HTTPException HTTP_404_NOT_FOUND ''Match result not found.''))\<rparr>
      | Some r \<Rightarrow>
          (let r' = setattr_items r match_result_request in
           if \<not> storable match_result_request then
             \<lparr>store = d, logs = l, result = Inl (PyError ''OverflowError'')\<rparr>
           else
             (let d' = d\<lparr>match_results :=
                         map (\<lambda>row. if mr_id row = mr_id r' then r' else row) (match_results d)\<rparr>
              in \<lparr>store = d',
                  logs = l @ [(INFO, ''Successfully updated match result with ID: {id}.'')],
                  result = Inr (model_validate r')\<rparr>)))"

definition update_match_result_by_id ::
  "db \<Rightarrow> int \<Rightarrow> MatchResultSchema \<Rightarrow> (HTTPException, MatchResultSchema) outcome" where
  "update_match_result_by_id d i match_result_request =
     except_HTTPException_except_Exception
       ''Error occurred while updating match result with ID {id}: {e}''
       ''An error occurred while updating the match result.''
       (update_match_result_by_id_try d i match_result_request)"

definition delete_match_result_by_id_try :: "db \<Rightarrow> int \<Rightarrow> (exn, unit) outcome" where
  "delete_match_result_by_id_try d i =
     (let l = [(DEBUG, ''Attempting to delete match result with ID: {id}.'')] in
      case find (\<lambda>r. mr_id r = i) (match_results d) of
        None \<Rightarrow>
          \<lparr>store = d,
           logs = l @ [(WARNING, ''Match result with ID {id} not found for deletion.'')],
           result = Inl (HTTP (HTTPException HTTP_404_NOT_FOUND ''Match result not found.''))\<rparr>
      | Some r \<Rightarrow>
          \<lparr>store = d\<lparr>match_results := filter (\<lambda>row. mr_id row \<noteq> mr_id r) (match_results d)\<rparr>,
           logs = l @ [(INFO, ''Successfully deleted match result with ID: {id}.'')],
           result = Inr ()\<rparr>)"

definition delete_match_result_by_id :: "db \<Rightarrow> int \<Rightarrow> (HTTPException, unit) outcome" where
  "delete_match_result_by_id d i =
     except_HTTPException_except_Exception
       ''Error occurred while deleting match result with ID {id}: {e}''
       ''An error occurred while deleting the match result.''
       (delete_match_result_by_id_try d i)"

section \<open>The recompute operation\<close>

text \<open>
  \<^verbatim>\<open>ConsultantProfile.availability != ConsultantEnum.unavailable\<close>: an enum member is
  the member \<^verbatim>\<open>unavailable\<close> when it has that name.
\<close>

definition is_unavailable :: "availability \<Rightarrow> bool" where
  "is_unavailable a = (case a of Enum e \<Rightarrow> enum_name e = ''unavailable'' | Str s \<Rightarrow> False)"

text \<open>
  The loop \<^verbatim>\<open>for idx, match in enumerate(all_matches): db.add(MatchResult(...))\<close>, flushed
  by the commit after it: the rows are inserted in order, each with the next identifier.
\<close>

fun add_matches :: "ext \<Rightarrow> int \<Rightarrow> MatchResult list \<Rightarrow> (nat \<times> match) list \<Rightarrow> MatchResult list" where
  "add_matches x jobDescription_id rows [] = rows"
| "add_matches x jobDescription_id rows ((idx, m) # rest) =
     add_matches x jobDescription_id
       (rows @ [\<lparr>mr_id = next_id (map mr_id rows),
                 mr_job_description_id = jobDescription_id,
                 mr_consultant_id = cp_id (m_profile m),
                 mr_rank = int idx + 1,
                 mr_similarity_score = m_similarity_score m,
                 mr_matched_at = matched_at_default x\<rparr>])
       rest"

record serialized_match =
  sm_profile :: "availability profile_dict"
  sm_similarity_score :: real
  sm_rank :: int

definition serialized_matches :: "match list \<Rightarrow> serialized_match list" where
  "serialized_matches all_matches =
     map (\<lambda>(idx, m).
            \<lparr>sm_profile =
               \<lparr>pd_id = cp_id (m_profile m), pd_name = cp_name (m_profile m),
                pd_skills = cp_skills (m_profile m),
                pd_experience = cp_experience (m_profile m),
                pd_location = cp_location (m_profile m),
                pd_availability = cp_availability (m_profile m)\<rparr>,
             sm_similarity_score = m_similarity_score m,
             sm_rank = int idx + 1\<rparr>)
         (enumerate 0 all_matches)"

text \<open>
  The inner \<^verbatim>\<open>try\<close> around \<^verbatim>\<open>send_email(jd.requestor_email, "test", message)\<close>: the
  lines it logs. Reading \<^verbatim>\<open>requestor_email\<close> off a missing job description raises
  inside that \<^verbatim>\<open>try\<close> too.
\<close>

definition send_email_logged :: "ext \<Rightarrow> JobDescription option \<Rightarrow> string option \<Rightarrow> log_entry list" where
  "send_email_logged x jd message =
     (case jd of
        None \<Rightarrow> [(ERROR, ''Error during send email notification agent {e}'')]
      | Some j \<Rightarrow>
          (case send_email x (jd_requestor_email j) ''test'' message of
             Returns u \<Rightarrow> []
           | Raises e \<Rightarrow> [(ERROR, ''Error during send email notification agent {e}'')]))"

text \<open>
  The pool handed to the matching routine:
  \<^verbatim>\<open>db.query(ConsultantProfile).filter(ConsultantProfile.availability != ConsultantEnum.unavailable).all()\<close>.
\<close>

definition available_profiles :: "db \<Rightarrow> ConsultantProfile list" where
  "available_profiles d = filter (\<lambda>p. \<not> is_unavailable (cp_availability p)) (consultant_profiles d)"

text \<open>
  \<^verbatim>\<open>db.add(WorkflowStatus(...)); db.commit()\<close>: the database in which the matching routine
  is called.
\<close>

definition add_workflow_status :: "db \<Rightarrow> int \<Rightarrow> db" where
  "add_workflow_status d jobDescription_id =
     d\<lparr>workflow_statuses := workflow_statuses d @
         [\<lparr>ws_id = next_id (map ws_id (workflow_statuses d)),
           ws_job_description_id = jobDescription_id,
           ws_steps = [(''jd_parsed'', True), (''profiles_compared'', False)],
           ws_progress = PROCESSING\<rparr>]\<rparr>"

definition get_all_match_results_try ::
  "ext \<Rightarrow> db \<Rightarrow> int \<Rightarrow> (exn, serialized_match list) outcome" where
  "get_all_match_results_try x d jobDescription_id =
     (let l0 = [(DEBUG, ''Fetching all match results from the database.'')];
          jd = find (\<lambda>j. jd_id j = jobDescription_id) (job_descriptions d);
          profiles = available_profiles d;
          l1 = l0 @ (if jd = None \<or> profiles = []
                     then [(STDOUT, ''Job Descriptions or Profiles not found for Job ID: {jobDescription_id}'')]
                     else []);
          d1 = add_workflow_status d jobDescription_id;
          l2 = l1 @ [(DEBUG, ''Invoking run_agent_matching function.'')]
      in case run_agent_matching x d1 jd profiles of
           Raises e \<Rightarrow> \<lparr>store = d1, logs = l2, result = Inl (PyError e)\<rparr>
         | Returns NoResult \<Rightarrow>
             \<lparr>store = d1,
              logs = l2 @ [(WARNING, ''Couldn't start  for  {id} not found fo.'')],
              result = Inl (HTTP (HTTPException HTTP_404_NOT_FOUND ''Workflow status not found.''))\<rparr>
         | Returns (Result message all_matches) \<Rightarrow>
             (let l3 = l2 @ send_email_logged x jd message in
              case find (\<lambda>w. ws_job_description_id w = jobDescription_id) (workflow_statuses d1) of
                None \<Rightarrow> \<lparr>store = d1, logs = l3, result = Inl (PyError ''AttributeError'')\<rparr>
              | Some workflow_status \<Rightarrow>
                  (let d2 = d1\<lparr>workflow_statuses :=
                               map (\<lambda>w. if ws_id w = ws_id workflow_status
                                         then workflow_status\<lparr>ws_progress := COMPLETED\<rparr> else w)
                                   (workflow_statuses d1)\<rparr>;
                       l4 = l3 @ (if all_matches = []
                                  then [(STDOUT, ''No matches found for job_id: {jobDescription_id}'')]
                                  else []);
                       d3 = d2\<lparr>match_results :=
                               filter (\<lambda>r. mr_job_description_id r \<noteq> jobDescription_id)
                                      (match_results d2)\<rparr>;
                       d4 = d3\<lparr>match_results :=
                               add_matches x jobDescription_id (match_results d3)
                                 (enumerate 0 all_matches)\<rparr>
                   in case jd of
                        None \<Rightarrow> \<lparr>store = d4, logs = l4, result = Inl (PyError ''AttributeError'')\<rparr>
                      | Some j \<Rightarrow>
                          \<lparr>store = d4\<lparr>notifications := notifications d4 @
                                     [\<lparr>nt_id = next_id (map nt_id (notifications d4)),
                                       nt_job_description_id = jobDescription_id,
                                       nt_recipient_email = jd_requestor_email j,
                                       nt_workflow_status_id = ws_id workflow_status,
                                       nt_email_content = message,
                                       nt_status = ''sent'',
                                       nt_sent_at = now x\<rparr>]\<rparr>,
                           logs = l4 @ [(INFO, ''Successfully fetched all match results.'')],
                           result = Inr (serialized_matches all_matches)\<rparr>)))"

definition get_all_match_results ::
  "ext \<Rightarrow> db \<Rightarrow> int \<Rightarrow> (HTTPException, serialized_match list) outcome" where
  "get_all_match_results x d jobDescription_id =
     except_Exception
       ''Error occurred while fetching match results: {e}''
       ''An error occurred while fetching match results.''
       (get_all_match_results_try x d jobDescription_id)"

section \<open>Example stores and collaborators\<close>

definition consultant_C1 :: ConsultantProfile where
  "consultant_C1 =
     \<lparr>cp_id = 1, cp_name = ''C1'', cp_skills = ''python'', cp_experience = 5,
      cp_location = ''Pune'', cp_availability = Enum (ConsultantEnum ''available'' ''available'')\<rparr>"

definition consultant_C2 :: ConsultantProfile where
  "consultant_C2 =
     \<lparr>cp_id = 2, cp_name = ''C2'', cp_skills = ''java'', cp_experience = 3,
      cp_location = ''Delhi'', cp_availability = Str ''available''\<rparr>"

text \<open>
  Job 1 has three stored matches, the third for a consultant without a profile row;
  job 2 has one; job 7 has none.
\<close>

definition example_db :: db where
  "example_db =
     \<lparr>job_descriptions = [\<lparr>jd_id = 1, jd_requestor_email = ''requestor@example.com''\<rparr>],
      consultant_profiles = [consultant_C1, consultant_C2],
      workflow_statuses = [],
      match_results =
        [\<lparr>mr_id = 1, mr_job_description_id = 1, mr_consultant_id = 1, mr_rank = 2,
          mr_similarity_score = 7 / 10, mr_matched_at = None\<rparr>,
         \<lparr>mr_id = 2, mr_job_description_id = 1, mr_consultant_id = 2, mr_rank = 1,
          mr_similarity_score = 9 / 10, mr_matched_at = Some 100\<rparr>,
         \<lparr>mr_id = 3, mr_job_description_id = 1, mr_consultant_id = 9, mr_rank = 3,
          mr_similarity_score = 1 / 2, mr_matched_at = None\<rparr>,
         \<lparr>mr_id = 4, mr_job_description_id = 2, mr_consultant_id = 1, mr_rank = 1,
          mr_similarity_score = 4 / 5, mr_matched_at = None\<rparr>],
      notifications = []\<rparr>"

text \<open>
  A matching routine that returns the two candidates of the scenario of section 8 of the
  specification, and an email sender that raises.
\<close>

definition example_ext :: ext where
  "example_ext =
     \<lparr>run_agent_matching = (\<lambda>d jd profiles.
        Returns (Result (Some ''2 matches'')
          [\<lparr>m_profile = consultant_C1, m_similarity_score = 9 / 10\<rparr>,
           \<lparr>m_profile = consultant_C2, m_similarity_score = 7 / 10\<rparr>])),
      send_email = (\<lambda>recipient subject body. Raises ''SMTPException''),
      now = 200,
      matched_at_default = Some 150,
      isoformat = (\<lambda>t. ''T'')\<rparr>"

text \<open>The same collaborators with a matching routine that returns \<^verbatim>\<open>None\<close>.\<close>

definition example_ext_no_result :: ext where
  "example_ext_no_result = example_ext\<lparr>run_agent_matching := (\<lambda>d jd profiles. Returns NoResult)\<rparr>"

text \<open>The example store without its job description.\<close>

definition example_db_no_job :: db where
  "example_db_no_job = example_db\<lparr>job_descriptions := []\<rparr>"

definition example_request :: MatchResultSchema where
  "example_request =
     \<lparr>s_job_description_id = 2, s_consultant_id = 2, s_rank = 5,
      s_similarity_score = 1 / 4, s_matched_at = Some 7\<rparr>"

text \<open>The same payload with a rank one past the largest signed 64-bit integer.\<close>

definition big_rank_request :: MatchResultSchema where
  "big_rank_request = example_request\<lparr>s_rank := 2 ^ 63\<rparr>"

section \<open>Properties\<close>

lemmas handler_defs = except_HTTPException_except_Exception_def except_Exception_def

lemmas example_defs = example_db_def example_ext_def consultant_C1_def consultant_C2_def
  example_ext_no_result_def example_db_no_job_def example_request_def big_rank_request_def

text \<open>
  Claim C9. The four read operations, \<^verbatim>\<open>get_match_result_by_id\<close>,
  \<^verbatim>\<open>get_match_results_by_job_description_id\<close>, \<^verbatim>\<open>get_top_3_matches\<close> and
  \<^verbatim>\<open>get_top_match_results_by_job_description_id\<close>, leave every table of the database
  as they found it, whatever they return or raise.
\<close>

theorem reads_keep_store:
  "store (get_match_result_by_id d i) = d \<and>
   store (get_match_results_by_job_description_id d j) = d \<and>
   store (get_top_3_matches x d j) = d \<and>
   store (get_top_match_results_by_job_description_id d j n) = d"
  by (simp add: get_match_result_by_id_def get_match_result_by_id_try_def
      get_match_results_by_job_description_id_def get_match_results_by_job_description_id_try_def
      get_top_3_matches_def get_top_3_matches_try_def
      get_top_match_results_by_job_description_id_def
      get_top_match_results_by_job_description_id_try_def
      handler_defs Let_def split: option.splits)

text \<open>
  Claim C6. When a row with the identifier is stored, \<^verbatim>\<open>delete_match_result_by_id\<close>
  returns normally and \<^verbatim>\<open>get_match_result_by_id\<close> on the database it leaves raises the
  404 "Match result not found.".
\<close>

theorem delete_then_get_not_found:
  assumes "\<exists>r \<in> set (match_results d). mr_id r = i"
  shows "result (delete_match_result_by_id d i) = Inr () \<and>
     result (get_match_result_by_id (store (delete_match_result_by_id d i)) i)
       = Inl (HTTPException 404 ''Match result not found.'')"
proof -
  from assms obtain r where r: "find (\<lambda>r. mr_id r = i) (match_results d) = Some r"
    by (cases "find (\<lambda>r. mr_id r = i) (match_results d)") (auto simp: find_None_iff)
  then have i: "mr_id r = i" by (auto simp: find_Some_iff)
  have "find (\<lambda>r. mr_id r = i) (filter (\<lambda>row. mr_id row \<noteq> i) (match_results d)) = None"
    by (simp add: find_None_iff)
  with r i show ?thesis
    by (simp add: delete_match_result_by_id_def delete_match_result_by_id_try_def
        get_match_result_by_id_def get_match_result_by_id_try_def handler_defs
        HTTP_404_NOT_FOUND_def)
qed

theorem delete_then_get_not_found_witness:
  "(\<exists>r \<in> set (match_results example_db). mr_id r = 3) \<and>
   result (delete_match_result_by_id example_db 3) = Inr () \<and>
   result (get_match_result_by_id (store (delete_match_result_by_id example_db 3)) 3)
     = Inl (HTTPException 404 ''Match result not found.'')"
proof -
  have h: "\<exists>r \<in> set (match_results example_db). mr_id r = 3"
    by (simp add: example_db_def)
  show ?thesis using h delete_then_get_not_found [OF h] by simp
qed

lemma find_map_replace:
  assumes "\<exists>row \<in> set xs. mr_id row = i" "mr_id r' = i"
  shows "find (\<lambda>r. mr_id r = i) (map (\<lambda>row. if mr_id row = i then r' else row) xs) = Some r'"
  using assms by (induction xs) auto

lemma mr_id_setattr_items: "mr_id (setattr_items r req) = mr_id r"
  by (simp add: setattr_items_def)

lemma model_validate_setattr_items: "model_validate (setattr_items r req) = req"
  by (simp add: setattr_items_def model_validate_def)

text \<open>
  Claim C5, as stated, fails. Row 3 of the example store is present, but the update with
  a payload whose rank is \<open>2 ^ 63\<close> does not return: the commit raises, the caller gets
  the 500, and the fetch that follows does not return the payload.
\<close>

theorem update_then_get_counterexample:
  "3 \<in> set (map mr_id (match_results example_db)) \<and>
   result (update_match_result_by_id example_db 3 big_rank_request)
     = Inl (HTTPException 500 ''An error occurred while updating the match result.'') \<and>
   result (get_match_result_by_id (store (update_match_result_by_id example_db 3 big_rank_request)) 3)
     \<noteq> Inr big_rank_request"
  by (simp add: update_match_result_by_id_def update_match_result_by_id_try_def
      get_match_result_by_id_def get_match_result_by_id_try_def handler_defs Let_def
      storable_def in_integer_range_def model_validate_def example_db_def
      example_request_def big_rank_request_def HTTP_500_INTERNAL_SERVER_ERROR_def)

text \<open>
  Claim C5, amended. When a row with the identifier is stored and the integer fields of
  the payload fit the store's signed 64-bit integer columns (its score being a number),
  \<^verbatim>\<open>update_match_result_by_id\<close> returns that payload, and \<^verbatim>\<open>get_match_result_by_id\<close> on
  the database it leaves returns a record equal to the payload in every field: the update
  overwrites every field the payload carries.
\<close>

theorem update_then_get:
  assumes "\<exists>r \<in> set (match_results d). mr_id r = i"
      and st: "storable req"
  shows "result (update_match_result_by_id d i req) = Inr req \<and>
     result (get_match_result_by_id (store (update_match_result_by_id d i req)) i) = Inr req"
proof -
  from assms obtain r where r: "find (\<lambda>r. mr_id r = i) (match_results d) = Some r"
    by (cases "find (\<lambda>r. mr_id r = i) (match_results d)") (auto simp: find_None_iff)
  then have i: "mr_id r = i" by (auto simp: find_Some_iff)
  have f: "find (\<lambda>r. mr_id r = i)
      (map (\<lambda>row. if mr_id row = i then setattr_items r req else row) (match_results d))
      = Some (setattr_items r req)"
    using assms(1) i by (intro find_map_replace) (simp_all add: mr_id_setattr_items)
  from r i f st show ?thesis
    by (simp add: update_match_result_by_id_def update_match_result_by_id_try_def
        get_match_result_by_id_def get_match_result_by_id_try_def handler_defs Let_def
        mr_id_setattr_items model_validate_setattr_items)
qed

theorem update_then_get_witness:
  "(\<exists>r \<in> set (match_results example_db). mr_id r = 3) \<and>
   storable example_request \<and>
   result (update_match_result_by_id example_db 3 example_request) = Inr example_request \<and>
   result (get_match_result_by_id (store (update_match_result_by_id example_db 3 example_request)) 3)
     = Inr example_request"
proof -
  have h: "\<exists>r \<in> set (match_results example_db). mr_id r = 3"
    by (simp add: example_db_def)
  have s: "storable example_request"
    by (simp add: storable_def in_integer_range_def example_request_def)
  show ?thesis using h s update_then_get [OF h s] by simp
qed

lemma limit_rows_take:
  "limit_rows n xs = take (if n < 0 then length xs else nat n) xs"
  by (simp add: limit_rows_def)

lemma sorted_rank_top_rows: "sorted (map mr_rank (top_rows d j n))"
  by (simp add: top_rows_def limit_rows_take take_map [symmetric])

lemma top_rows_best:
  assumes "e \<in># mset (filter (\<lambda>r. mr_job_description_id r = j) (match_results d)) - mset (top_rows d j n)"
      and "r \<in> set (top_rows d j n)"
  shows "mr_rank r \<le> mr_rank e"
proof -
  let ?S = "sort_key mr_rank (filter (\<lambda>r. mr_job_description_id r = j) (match_results d))"
  let ?k = "if n < 0 then length ?S else nat n"
  have t: "top_rows d j n = take ?k ?S"
    by (simp only: top_rows_def limit_rows_take)
  have "mset ?S = mset (take ?k ?S) + mset (drop ?k ?S)"
    by (metis append_take_drop_id mset_append)
  then have "mset (filter (\<lambda>r. mr_job_description_id r = j) (match_results d)) - mset (take ?k ?S)
      = mset (drop ?k ?S)"
    by simp
  with assms(1) have e: "e \<in> set (drop ?k ?S)" by (simp only: t set_mset_mset)
  have "sorted (map mr_rank (take ?k ?S @ drop ?k ?S))"
    by (simp only: append_take_drop_id sorted_sort_key)
  then have "\<forall>x\<in>set (take ?k ?S). \<forall>y\<in>set (drop ?k ?S). mr_rank x \<le> mr_rank y"
    unfolding map_append sorted_append by auto
  with e assms(2) show ?thesis by (simp only: t)
qed

lemma top_rows_subset:
  "mset (top_rows d j n) \<subseteq># mset (filter (\<lambda>r. mr_job_description_id r = j) (match_results d))"
proof -
  let ?S = "sort_key mr_rank (filter (\<lambda>r. mr_job_description_id r = j) (match_results d))"
  let ?k = "if n < 0 then length ?S else nat n"
  have t: "top_rows d j n = take ?k ?S"
    by (simp only: top_rows_def limit_rows_take)
  have "mset ?S = mset (take ?k ?S) + mset (drop ?k ?S)"
    by (metis append_take_drop_id mset_append)
  then have "mset (take ?k ?S) \<subseteq># mset (filter (\<lambda>r. mr_job_description_id r = j) (match_results d))"
    by simp
  then show ?thesis by (simp only: t)
qed

text \<open>
  Claim C3, as stated, fails. For job 1 of the example store and \<open>n = - 1\<close>,
  \<^verbatim>\<open>get_top_match_results_by_job_description_id\<close> returns the validated rows of its
  query, and they are three: more than \<open>n\<close>.
\<close>

theorem top_n_negative_counterexample:
  "result (get_top_match_results_by_job_description_id example_db 1 (- 1))
     = Inr (map model_validate (top_rows example_db 1 (- 1))) \<and>
   length (map model_validate (top_rows example_db 1 (- 1))) = 3 \<and>
   \<not> int (length (map model_validate (top_rows example_db 1 (- 1)))) \<le> - 1"
  by (simp add: get_top_match_results_by_job_description_id_def
      get_top_match_results_by_job_description_id_try_def handler_defs
      top_rows_def limit_rows_def example_db_def)

text \<open>
  Claim C3, amended. Whenever \<^verbatim>\<open>get_top_match_results_by_job_description_id\<close> returns, it
  returns the validated rows of its query: at most \<open>n\<close> of them when \<open>n\<close> is not
  negative, and for every \<open>n\<close> in ascending order of rank; they are rows of the job, and
  every row of the job that is left out (counted with multiplicity) has a rank at least
  as large as the rank of every returned row.
\<close>

theorem top_n_sorted_best:
  assumes "result (get_top_match_results_by_job_description_id d j n) = Inr out"
  shows "out = map model_validate (top_rows d j n) \<and>
     (0 \<le> n \<longrightarrow> int (length out) \<le> n) \<and>
     sorted (map s_rank out) \<and>
     mset (top_rows d j n) \<subseteq># mset (filter (\<lambda>r. mr_job_description_id r = j) (match_results d)) \<and>
     (\<forall>e \<in># mset (filter (\<lambda>r. mr_job_description_id r = j) (match_results d)) - mset (top_rows d j n).
        \<forall>r \<in> set out. s_rank r \<le> mr_rank e)"
proof -
  from assms have out: "out = map model_validate (top_rows d j n)"
    by (simp add: get_top_match_results_by_job_description_id_def
        get_top_match_results_by_job_description_id_try_def handler_defs Let_def
        split: if_splits)
  have len: "0 \<le> n \<longrightarrow> int (length out) \<le> n"
    by (auto simp: out top_rows_def limit_rows_def min_def)
  have "map s_rank out = map mr_rank (top_rows d j n)"
    by (simp add: out model_validate_def comp_def)
  then have srt: "sorted (map s_rank out)" by (simp add: sorted_rank_top_rows)
  have best: "\<forall>e \<in># mset (filter (\<lambda>r. mr_job_description_id r = j) (match_results d)) - mset (top_rows d j n).
        \<forall>r \<in> set out. s_rank r \<le> mr_rank e"
    using top_rows_best [of _ j d n] by (auto simp: out model_validate_def)
  from out len srt best top_rows_subset show ?thesis by blast
qed

theorem top_n_sorted_best_witness:
  "result (get_top_match_results_by_job_description_id example_db 1 2)
     = Inr (map model_validate (top_rows example_db 1 2)) \<and>
   int (length (map model_validate (top_rows example_db 1 2))) \<le> 2 \<and>
   map s_rank (map model_validate (top_rows example_db 1 2)) = [1, 2] \<and>
   mset (filter (\<lambda>r. mr_job_description_id r = 1) (match_results example_db))
       - mset (top_rows example_db 1 2)
     = {#\<lparr>mr_id = 3, mr_job_description_id = 1, mr_consultant_id = 9, mr_rank = 3,
          mr_similarity_score = 1 / 2, mr_matched_at = None\<rparr>#}"
proof -
  have t: "top_rows example_db 1 2 =
      [\<lparr>mr_id = 2, mr_job_description_id = 1, mr_consultant_id = 2, mr_rank = 1,
        mr_similarity_score = 9 / 10, mr_matched_at = Some 100\<rparr>,
       \<lparr>mr_id = 1, mr_job_description_id = 1, mr_consultant_id = 1, mr_rank = 2,
        mr_similarity_score = 7 / 10, mr_matched_at = None\<rparr>]"
    by (simp add: top_rows_def limit_rows_def example_db_def)
  have h: "result (get_top_match_results_by_job_description_id example_db 1 2)
     = Inr (map model_validate (top_rows example_db 1 2))"
    by (simp add: t get_top_match_results_by_job_description_id_def
        get_top_match_results_by_job_description_id_try_def handler_defs)
  have m: "mset (filter (\<lambda>r. mr_job_description_id r = 1) (match_results example_db))
       - mset (top_rows example_db 1 2)
     = {#\<lparr>mr_id = 3, mr_job_description_id = 1, mr_consultant_id = 9, mr_rank = 3,
          mr_similarity_score = 1 / 2, mr_matched_at = None\<rparr>#}"
    by (simp add: t) (simp add: example_db_def)
  show ?thesis using h m top_n_sorted_best [OF h]
    by (simp add: t model_validate_def)
qed

text \<open>
  Claim C10. \<^verbatim>\<open>get_top_3_matches\<close> returns one entry for each of the rows of its query,
  in order. Where the lookup of the consultant of the \<open>k\<close>-th row finds no profile row,
  the \<open>k\<close>-th
  entry has the profile \<^verbatim>\<open>None\<close> and takes its score, its rank and its timestamp from
  the match row.
\<close>

theorem top_3_missing_profile:
  assumes "k < length (top_rows d j 3)"
      and "find (\<lambda>c. cp_id c = mr_consultant_id (top_rows d j 3 ! k)) (consultant_profiles d) = None"
  shows "\<exists>out. result (get_top_3_matches x d j) = Inr out \<and>
     length out = length (top_rows d j 3) \<and>
     out ! k = \<lparr>tm_profile = None,
                tm_similarity_score = mr_similarity_score (top_rows d j 3 ! k),
                tm_rank = mr_rank (top_rows d j 3 ! k),
                tm_ranked_at = map_option (isoformat x) (mr_matched_at (top_rows d j 3 ! k))\<rparr>"
proof -
  from assms(2) have "serialize_top x d (top_rows d j 3 ! k) =
      \<lparr>tm_profile = None,
       tm_similarity_score = mr_similarity_score (top_rows d j 3 ! k),
       tm_rank = mr_rank (top_rows d j 3 ! k),
       tm_ranked_at = map_option (isoformat x) (mr_matched_at (top_rows d j 3 ! k))\<rparr>"
    by (simp add: serialize_top_def split: option.splits)
  with assms(1) show ?thesis
    by (simp add: get_top_3_matches_def get_top_3_matches_try_def handler_defs)
qed

theorem top_3_missing_profile_witness:
  "2 < length (top_rows example_db 1 3) \<and>
   find (\<lambda>c. cp_id c = mr_consultant_id (top_rows example_db 1 3 ! 2))
     (consultant_profiles example_db) = None \<and>
   (\<exists>out. result (get_top_3_matches example_ext example_db 1) = Inr out \<and>
      length out = 3 \<and>
      out ! 2 = \<lparr>tm_profile = None, tm_similarity_score = 1 / 2, tm_rank = 3,
                 tm_ranked_at = None\<rparr>)"
proof -
  have t: "top_rows example_db 1 3 =
      [\<lparr>mr_id = 2, mr_job_description_id = 1, mr_consultant_id = 2, mr_rank = 1,
        mr_similarity_score = 9 / 10, mr_matched_at = Some 100\<rparr>,
       \<lparr>mr_id = 1, mr_job_description_id = 1, mr_consultant_id = 1, mr_rank = 2,
        mr_similarity_score = 7 / 10, mr_matched_at = None\<rparr>,
       \<lparr>mr_id = 3, mr_job_description_id = 1, mr_consultant_id = 9, mr_rank = 3,
        mr_similarity_score = 1 / 2, mr_matched_at = None\<rparr>]"
    by (simp add: top_rows_def limit_rows_def example_db_def)
  have h1: "2 < length (top_rows example_db 1 3)" by (simp add: t)
  have h2: "find (\<lambda>c. cp_id c = mr_consultant_id (top_rows example_db 1 3 ! 2))
     (consultant_profiles example_db) = None"
    by (simp add: t) (simp add: example_defs)
  from top_3_missing_profile [OF h1 h2, of example_ext]
  obtain out where o: "result (get_top_3_matches example_ext example_db 1) = Inr out"
    "length out = length (top_rows example_db 1 3)"
    "out ! 2 = \<lparr>tm_profile = None,
                tm_similarity_score = mr_similarity_score (top_rows example_db 1 3 ! 2),
                tm_rank = mr_rank (top_rows example_db 1 3 ! 2),
                tm_ranked_at = map_option (isoformat example_ext)
                  (mr_matched_at (top_rows example_db 1 3 ! 2))\<rparr>"
    by blast
  have "length out = 3" using o(2) by (simp add: t)
  moreover have "out ! 2 = \<lparr>tm_profile = None, tm_similarity_score = 1 / 2, tm_rank = 3,
      tm_ranked_at = None\<rparr>"
    using o(3) by (simp add: t)
  ultimately show ?thesis using h1 h2 o(1) by blast
qed

text \<open>
  Claim C4. For job 7 of the example store, which has no stored match,
  \<^verbatim>\<open>get_top_3_matches\<close> returns the empty list, where
  \<^verbatim>\<open>get_top_match_results_by_job_description_id\<close> raises the 404.
\<close>

theorem top_3_of_job_without_rows:
  "result (get_top_3_matches example_ext example_db 7) = Inr [] \<and>
   result (get_top_match_results_by_job_description_id example_db 7 3)
     = Inl (HTTPException 404 ''No match results found for the given job description ID.'')"
  by (simp add: get_top_3_matches_def get_top_3_matches_try_def
      get_top_match_results_by_job_description_id_def
      get_top_match_results_by_job_description_id_try_def handler_defs top_rows_def
      limit_rows_def
      example_db_def HTTP_404_NOT_FOUND_def)

lemma top_3_never_raises:
  "result (get_top_3_matches x d j) = Inr (map (serialize_top x d) (top_rows d j 3))"
  by (simp add: get_top_3_matches_def get_top_3_matches_try_def handler_defs)

lemma top_n_not_found:
  "filter (\<lambda>r. mr_job_description_id r = j) (match_results d) = [] \<Longrightarrow>
   result (get_top_match_results_by_job_description_id d j n)
     = Inl (HTTPException 404 ''No match results found for the given job description ID.'')"
  by (simp add: get_top_match_results_by_job_description_id_def
      get_top_match_results_by_job_description_id_try_def handler_defs top_rows_def
      limit_rows_def
      HTTP_404_NOT_FOUND_def)

lemma add_matches_append:
  "\<exists>new. add_matches x j rows ims = rows @ new \<and>
     (\<forall>r \<in> set new. mr_job_description_id r = j) \<and>
     map (\<lambda>r. (mr_consultant_id r, mr_similarity_score r, mr_rank r)) new
       = map (\<lambda>(idx, m). (cp_id (m_profile m), m_similarity_score m, int idx + 1)) ims"
proof (induction ims arbitrary: rows)
  case Nil
  then show ?case by simp
next
  case (Cons a ims)
  obtain idx m where a: "a = (idx, m)" by (cases a)
  let ?r = "\<lparr>mr_id = next_id (map mr_id rows), mr_job_description_id = j,
             mr_consultant_id = cp_id (m_profile m), mr_rank = int idx + 1,
             mr_similarity_score = m_similarity_score m,
             mr_matched_at = matched_at_default x\<rparr>"
  from Cons.IH [of "rows @ [?r]"] obtain new where
    n: "add_matches x j (rows @ [?r]) ims = (rows @ [?r]) @ new"
       "\<forall>r \<in> set new. mr_job_description_id r = j"
       "map (\<lambda>r. (mr_consultant_id r, mr_similarity_score r, mr_rank r)) new
          = map (\<lambda>(idx, m). (cp_id (m_profile m), m_similarity_score m, int idx + 1)) ims"
    by blast
  show ?case
    by (rule exI [of _ "?r # new"]) (simp add: a n)
qed

lemma find_append_last: "P w \<Longrightarrow> find P (xs @ [w]) \<noteq> None"
  by (auto simp: find_None_iff)

lemma find_map_mark:
  "find P xs = Some w \<Longrightarrow> P (g w) \<Longrightarrow>
   find P (map (\<lambda>v. if k v = k w then g w else v) xs) = Some (g w)"
  by (induction xs) (auto split: if_splits)


lemma workflow_status_found:
  "find (\<lambda>w. ws_job_description_id w = i) (workflow_statuses (add_workflow_status d i)) \<noteq> None"
  unfolding add_workflow_status_def by (simp add: find_append_last)

lemma recompute_try_done:
  assumes jd: "find (\<lambda>j. jd_id j = i) (job_descriptions d) = Some jd"
      and run: "run_agent_matching x (add_workflow_status d i) (Some jd) (available_profiles d)
                  = Returns (Result message all_matches)"
  shows "\<exists>ws. find (\<lambda>w. ws_job_description_id w = i) (workflow_statuses (add_workflow_status d i)) = Some ws \<and>
      result (get_all_match_results_try x d i) = Inr (serialized_matches all_matches) \<and>
      match_results (store (get_all_match_results_try x d i))
        = add_matches x i (filter (\<lambda>r. mr_job_description_id r \<noteq> i) (match_results d))
            (enumerate 0 all_matches) \<and>
      workflow_statuses (store (get_all_match_results_try x d i))
        = map (\<lambda>w. if ws_id w = ws_id ws then ws\<lparr>ws_progress := COMPLETED\<rparr> else w)
            (workflow_statuses (add_workflow_status d i)) \<and>
      logs (get_all_match_results_try x d i)
        = [(DEBUG, ''Fetching all match results from the database.'')]
          @ (if available_profiles d = []
             then [(STDOUT, ''Job Descriptions or Profiles not found for Job ID: {jobDescription_id}'')]
             else [])
          @ [(DEBUG, ''Invoking run_agent_matching function.'')]
          @ send_email_logged x (Some jd) message
          @ (if all_matches = []
             then [(STDOUT, ''No matches found for job_id: {jobDescription_id}'')] else [])
          @ [(INFO, ''Successfully fetched all match results.'')]"
proof -
  from workflow_status_found [of i d] obtain ws where
    ws: "find (\<lambda>w. ws_job_description_id w = i) (workflow_statuses (add_workflow_status d i)) = Some ws"
    by blast
  have m: "match_results (add_workflow_status d i) = match_results d"
    by (simp add: add_workflow_status_def)
  show ?thesis
    by (rule exI [of _ ws]) (simp add: get_all_match_results_try_def Let_def jd run ws m)
qed

lemma recompute_try_no_job:
  assumes "find (\<lambda>j. jd_id j = i) (job_descriptions d) = None"
  shows "\<exists>e. result (get_all_match_results_try x d i) = Inl e"
proof -
  from workflow_status_found [of i d] obtain ws where
    ws: "find (\<lambda>w. ws_job_description_id w = i) (workflow_statuses (add_workflow_status d i)) = Some ws"
    by blast
  show ?thesis
    by (simp add: get_all_match_results_try_def Let_def assms ws
        split: call.splits matching.splits)
qed

lemma except_Exception_Inl:
  "result out = Inl e \<Longrightarrow>
   result (except_Exception msg dtl out) = Inl (HTTPException 500 dtl)"
  by (simp add: except_Exception_def HTTP_500_INTERNAL_SERVER_ERROR_def)

lemma except_Exception_Inr:
  "result out = Inr v \<Longrightarrow>
   result (except_Exception msg dtl out) = Inr v \<and>
   store (except_Exception msg dtl out) = store out \<and>
   logs (except_Exception msg dtl out) = logs out"
  by (simp add: except_Exception_def)

lemma recompute_without_job_fails:
  assumes "find (\<lambda>j. jd_id j = i) (job_descriptions d) = None"
  shows "result (get_all_match_results x d i)
     = Inl (HTTPException 500 ''An error occurred while fetching match results.'')"
  using recompute_try_no_job [OF assms, of x] 
  by (auto simp: get_all_match_results_def except_Exception_Inl)

lemma recompute_no_result_is_500:
  assumes "run_agent_matching x (add_workflow_status d i)
             (find (\<lambda>j. jd_id j = i) (job_descriptions d)) (available_profiles d) = Returns NoResult"
  shows "result (get_all_match_results_try x d i)
           = Inl (HTTP (HTTPException 404 ''Workflow status not found.'')) \<and>
         result (get_all_match_results x d i)
           = Inl (HTTPException 500 ''An error occurred while fetching match results.'')"
proof -
  have "result (get_all_match_results_try x d i)
           = Inl (HTTP (HTTPException 404 ''Workflow status not found.''))"
    by (simp add: get_all_match_results_try_def Let_def assms HTTP_404_NOT_FOUND_def)
  then show ?thesis
    by (simp add: get_all_match_results_def except_Exception_Inl)
qed


lemma recompute_done:
  assumes jd: "find (\<lambda>j. jd_id j = i) (job_descriptions d) = Some jd"
      and run: "run_agent_matching x (add_workflow_status d i) (Some jd) (available_profiles d)
                  = Returns (Result message all_matches)"
  shows "result (get_all_match_results x d i) = Inr (serialized_matches all_matches)"
    and "store (get_all_match_results x d i) = store (get_all_match_results_try x d i)"
    and "logs (get_all_match_results x d i) = logs (get_all_match_results_try x d i)"
  using recompute_try_done [OF jd run]
  by (auto simp: get_all_match_results_def except_Exception_Inr)

lemma ranks_enumerate:
  "map (\<lambda>(idx, m). int idx + 1) (enumerate n ms) = [int n + 1..int n + int (length ms)]"
proof (induction ms arbitrary: n)
  case Nil
  then show ?case by simp
next
  case (Cons m ms)
  have "[int n + 1..int n + int (length (m # ms))]
      = (int n + 1) # [int (Suc n) + 1..int (Suc n) + int (length ms)]"
    by (subst upto_rec1) (simp_all add: add.commute add.left_commute)
  with Cons.IH [of "Suc n"] show ?case by simp
qed

lemma fresh_rows_of_job:
  "map (\<lambda>r. (mr_consultant_id r, mr_similarity_score r, mr_rank r))
     (filter (\<lambda>r. mr_job_description_id r = i)
        (add_matches x i (filter (\<lambda>r. mr_job_description_id r \<noteq> i) rows) ims))
   = map (\<lambda>(idx, m). (cp_id (m_profile m), m_similarity_score m, int idx + 1)) ims"
  and other_rows_kept:
  "filter (\<lambda>r. mr_job_description_id r \<noteq> i)
        (add_matches x i (filter (\<lambda>r. mr_job_description_id r \<noteq> i) rows) ims)
   = filter (\<lambda>r. mr_job_description_id r \<noteq> i) rows"
proof -
  from add_matches_append [of x i "filter (\<lambda>r. mr_job_description_id r \<noteq> i) rows" ims]
  obtain new where
    n: "add_matches x i (filter (\<lambda>r. mr_job_description_id r \<noteq> i) rows) ims
          = filter (\<lambda>r. mr_job_description_id r \<noteq> i) rows @ new"
       "\<forall>r \<in> set new. mr_job_description_id r = i"
       "map (\<lambda>r. (mr_consultant_id r, mr_similarity_score r, mr_rank r)) new
          = map (\<lambda>(idx, m). (cp_id (m_profile m), m_similarity_score m, int idx + 1)) ims"
    by blast
  have a: "filter (\<lambda>r. mr_job_description_id r = i) new = new"
    using n(2) by (simp add: filter_id_conv)
  have b: "filter (\<lambda>r. mr_job_description_id r \<noteq> i) new = []"
    using n(2) by (simp add: filter_empty_conv)
  have c: "filter (\<lambda>r. mr_job_description_id r = i) (filter (\<lambda>r. mr_job_description_id r \<noteq> i) rows) = []"
    by (simp add: filter_empty_conv)
  show "map (\<lambda>r. (mr_consultant_id r, mr_similarity_score r, mr_rank r))
     (filter (\<lambda>r. mr_job_description_id r = i)
        (add_matches x i (filter (\<lambda>r. mr_job_description_id r \<noteq> i) rows) ims))
   = map (\<lambda>(idx, m). (cp_id (m_profile m), m_similarity_score m, int idx + 1)) ims"
    by (simp only: n(1) filter_append a c append_Nil n(3))
  show "filter (\<lambda>r. mr_job_description_id r \<noteq> i)
        (add_matches x i (filter (\<lambda>r. mr_job_description_id r \<noteq> i) rows) ims)
   = filter (\<lambda>r. mr_job_description_id r \<noteq> i) rows"
    by (simp add: n(1) b)
qed

lemma serialized_matches_key:
  "map (\<lambda>e. (pd_id (sm_profile e), sm_similarity_score e, sm_rank e)) (serialized_matches ms)
     = map (\<lambda>(idx, m). (cp_id (m_profile m), m_similarity_score m, int idx + 1)) (enumerate 0 ms)"
  by (simp add: serialized_matches_def comp_def case_prod_unfold)

text \<open>
  Claim C1. When \<^verbatim>\<open>get_all_match_results\<close> returns normally and the matching routine
  returned the list \<open>all_matches\<close> of \<open>k\<close> matches, the rows stored for the job are
  exactly the \<open>k\<close> fresh ones, in the order of \<open>all_matches\<close>: the \<open>n\<close>-th row has the
  consultant and the score of the \<open>n\<close>-th match and the rank \<open>n\<close>, so the ranks are
  \<open>1, \<dots>, k\<close> and no earlier row of the job is left. The returned list pairs the
  profile and score of the \<open>n\<close>-th match with the same rank \<open>n\<close>. The rows of the other
  jobs are as before.
\<close>

theorem recompute_replaces_matches:
  assumes ok: "result (get_all_match_results x d i) = Inr out"
      and run: "run_agent_matching x (add_workflow_status d i)
                  (find (\<lambda>j. jd_id j = i) (job_descriptions d)) (available_profiles d)
                  = Returns (Result message all_matches)"
  shows "map (\<lambda>r. (mr_consultant_id r, mr_similarity_score r, mr_rank r))
           (filter (\<lambda>r. mr_job_description_id r = i) (match_results (store (get_all_match_results x d i))))
         = map (\<lambda>(idx, m). (cp_id (m_profile m), m_similarity_score m, int idx + 1))
             (enumerate 0 all_matches) \<and>
     map mr_rank (filter (\<lambda>r. mr_job_description_id r = i)
           (match_results (store (get_all_match_results x d i))))
         = [1..int (length all_matches)] \<and>
     map (\<lambda>e. (pd_id (sm_profile e), sm_similarity_score e, sm_rank e)) out
         = map (\<lambda>(idx, m). (cp_id (m_profile m), m_similarity_score m, int idx + 1))
             (enumerate 0 all_matches) \<and>
     filter (\<lambda>r. mr_job_description_id r \<noteq> i) (match_results (store (get_all_match_results x d i)))
         = filter (\<lambda>r. mr_job_description_id r \<noteq> i) (match_results d)"
proof -
  let ?rows = "filter (\<lambda>r. mr_job_description_id r = i)
      (match_results (store (get_all_match_results x d i)))"
  from ok obtain jd where jd: "find (\<lambda>j. jd_id j = i) (job_descriptions d) = Some jd"
    using recompute_without_job_fails [of i d x]
    by (cases "find (\<lambda>j. jd_id j = i) (job_descriptions d)") auto
  from run jd have run': "run_agent_matching x (add_workflow_status d i) (Some jd)
      (available_profiles d) = Returns (Result message all_matches)"
    by simp
  from recompute_try_done [OF jd run'] recompute_done(2) [OF jd run']
  have st: "match_results (store (get_all_match_results x d i))
      = add_matches x i (filter (\<lambda>r. mr_job_description_id r \<noteq> i) (match_results d))
          (enumerate 0 all_matches)"
    by auto
  from recompute_done(1) [OF jd run'] ok have out: "out = serialized_matches all_matches"
    by simp
  have k: "map (\<lambda>r. (mr_consultant_id r, mr_similarity_score r, mr_rank r)) ?rows
      = map (\<lambda>(idx, m). (cp_id (m_profile m), m_similarity_score m, int idx + 1))
          (enumerate 0 all_matches)"
    by (simp only: st fresh_rows_of_job)
  have "map mr_rank ?rows
      = map (\<lambda>t. snd (snd t)) (map (\<lambda>r. (mr_consultant_id r, mr_similarity_score r, mr_rank r)) ?rows)"
    by (simp add: comp_def)
  also have "\<dots> = map (\<lambda>(idx, m). int idx + 1) (enumerate 0 all_matches)"
    by (simp only: k) (simp add: comp_def case_prod_unfold)
  also have "\<dots> = [1..int (length all_matches)]"
    using ranks_enumerate [of 0 all_matches] by simp
  finally have r: "map mr_rank ?rows = [1..int (length all_matches)]" .
  have o: "filter (\<lambda>r. mr_job_description_id r \<noteq> i) (match_results (store (get_all_match_results x d i)))
         = filter (\<lambda>r. mr_job_description_id r \<noteq> i) (match_results d)"
    by (simp only: st other_rows_kept)
  from k r o show ?thesis by (simp add: out serialized_matches_key)
qed


theorem recompute_replaces_matches_witness:
  "result (get_all_match_results example_ext example_db 1)
     = Inr (serialized_matches
         [\<lparr>m_profile = consultant_C1, m_similarity_score = 9 / 10\<rparr>,
          \<lparr>m_profile = consultant_C2, m_similarity_score = 7 / 10\<rparr>]) \<and>
   map (\<lambda>r. (mr_consultant_id r, mr_similarity_score r, mr_rank r))
     (filter (\<lambda>r. mr_job_description_id r = 1)
        (match_results (store (get_all_match_results example_ext example_db 1))))
     = [(1, 9 / 10, 1), (2, 7 / 10, 2)] \<and>
   map mr_rank (filter (\<lambda>r. mr_job_description_id r = 1)
        (match_results (store (get_all_match_results example_ext example_db 1)))) = [1, 2]"
proof -
  have jd: "find (\<lambda>j. jd_id j = 1) (job_descriptions example_db)
      = Some \<lparr>jd_id = 1, jd_requestor_email = ''requestor@example.com''\<rparr>"
    by (simp add: example_db_def)
  have run: "run_agent_matching example_ext (add_workflow_status example_db 1)
      (find (\<lambda>j. jd_id j = 1) (job_descriptions example_db)) (available_profiles example_db)
      = Returns (Result (Some ''2 matches'')
          [\<lparr>m_profile = consultant_C1, m_similarity_score = 9 / 10\<rparr>,
           \<lparr>m_profile = consultant_C2, m_similarity_score = 7 / 10\<rparr>])"
    by (simp add: example_ext_def)
  have ok: "result (get_all_match_results example_ext example_db 1)
     = Inr (serialized_matches
         [\<lparr>m_profile = consultant_C1, m_similarity_score = 9 / 10\<rparr>,
          \<lparr>m_profile = consultant_C2, m_similarity_score = 7 / 10\<rparr>])"
    using recompute_done(1) [OF jd run [unfolded jd]] .
  have u: "[1..2] = [1, 2::int]" by (simp add: upto_rec1)
  show ?thesis using ok recompute_replaces_matches [OF ok run]
    by (simp add: consultant_C1_def consultant_C2_def u)
qed

lemma store_except_Exception: "store (except_Exception msg dtl out) = store out"
  by (simp add: except_Exception_def split: sum.splits)

lemma result_except_Exception_cong:
  "result out = result out' \<Longrightarrow>
   result (except_Exception msg dtl out) = result (except_Exception msg dtl out')"
  by (simp add: except_Exception_def split: sum.splits)

lemma add_matches_send_email:
  "add_matches (x\<lparr>send_email := f\<rparr>) j rows ims = add_matches x j rows ims"
  by (induction x j rows ims rule: add_matches.induct) simp_all

lemma send_email_irrelevant:
  "store (get_all_match_results_try (x\<lparr>send_email := f\<rparr>) d i) = store (get_all_match_results_try x d i) \<and>
   result (get_all_match_results_try (x\<lparr>send_email := f\<rparr>) d i) = result (get_all_match_results_try x d i)"
proof -
  let ?x = "x\<lparr>send_email := f\<rparr>"
  let ?jd = "find (\<lambda>j. jd_id j = i) (job_descriptions d)"
  let ?r = "run_agent_matching x (add_workflow_status d i) ?jd (available_profiles d)"
  have r: "run_agent_matching ?x (add_workflow_status d i) ?jd (available_profiles d) = ?r"
    by simp
  show ?thesis
  proof (cases ?r)
    case (Raises e)
    with r show ?thesis by (simp add: get_all_match_results_try_def Let_def)
  next
    case (Returns m)
    show ?thesis
    proof (cases m)
      case NoResult
      with Returns r show ?thesis by (simp add: get_all_match_results_try_def Let_def)
    next
      case (Result message all_matches)
      from workflow_status_found [of i d] obtain ws where
        ws: "find (\<lambda>w. ws_job_description_id w = i)
               (workflow_statuses (add_workflow_status d i)) = Some ws"
        by blast
      show ?thesis
      proof (cases ?jd)
        case None
        with Returns Result r ws show ?thesis
          by (simp add: get_all_match_results_try_def Let_def add_matches_send_email)
      next
        case (Some j)
        with Returns Result r ws show ?thesis
          by (simp add: get_all_match_results_try_def Let_def add_matches_send_email)
      qed
    qed
  qed
qed

text \<open>
  Claim C8. When the job description exists, the matching routine returns a result and
  \<^verbatim>\<open>send_email\<close> raises, \<^verbatim>\<open>get_all_match_results\<close> logs the error and goes on: it
  returns the serialized matches, the workflow-status row it fetches for the job is
  \<^verbatim>\<open>COMPLETED\<close>, the matches of the job are replaced by the fresh ones, and the database
  and the returned value are those of the run in which the email is sent.
\<close>

theorem email_failure_is_swallowed:
  assumes jd: "find (\<lambda>j. jd_id j = i) (job_descriptions d) = Some jd"
      and run: "run_agent_matching x (add_workflow_status d i) (Some jd) (available_profiles d)
                  = Returns (Result message all_matches)"
      and mail: "send_email x (jd_requestor_email jd) ''test'' message = Raises e"
  shows "result (get_all_match_results x d i) = Inr (serialized_matches all_matches) \<and>
     (ERROR, ''Error during send email notification agent {e}'') \<in> set (logs (get_all_match_results x d i)) \<and>
     (\<exists>ws. find (\<lambda>w. ws_job_description_id w = i)
              (workflow_statuses (store (get_all_match_results x d i))) = Some ws \<and>
           ws_progress ws = COMPLETED) \<and>
     map (\<lambda>r. (mr_consultant_id r, mr_similarity_score r, mr_rank r))
           (filter (\<lambda>r. mr_job_description_id r = i) (match_results (store (get_all_match_results x d i))))
         = map (\<lambda>(idx, m). (cp_id (m_profile m), m_similarity_score m, int idx + 1))
             (enumerate 0 all_matches) \<and>
     store (get_all_match_results x d i)
         = store (get_all_match_results (x\<lparr>send_email := (\<lambda>recipient subject body. Returns ())\<rparr>) d i) \<and>
     result (get_all_match_results x d i)
         = result (get_all_match_results (x\<lparr>send_email := (\<lambda>recipient subject body. Returns ())\<rparr>) d i)"
proof -
  from recompute_try_done [OF jd run] obtain ws where
    ws: "find (\<lambda>w. ws_job_description_id w = i) (workflow_statuses (add_workflow_status d i)) = Some ws"
    and mr: "match_results (store (get_all_match_results_try x d i))
        = add_matches x i (filter (\<lambda>r. mr_job_description_id r \<noteq> i) (match_results d))
            (enumerate 0 all_matches)"
    and wf: "workflow_statuses (store (get_all_match_results_try x d i))
        = map (\<lambda>w. if ws_id w = ws_id ws then ws\<lparr>ws_progress := COMPLETED\<rparr> else w)
            (workflow_statuses (add_workflow_status d i))"
    and lg: "logs (get_all_match_results_try x d i)
        = [(DEBUG, ''Fetching all match results from the database.'')]
          @ (if available_profiles d = []
             then [(STDOUT, ''Job Descriptions or Profiles not found for Job ID: {jobDescription_id}'')]
             else [])
          @ [(DEBUG, ''Invoking run_agent_matching function.'')]
          @ send_email_logged x (Some jd) message
          @ (if all_matches = []
             then [(STDOUT, ''No matches found for job_id: {jobDescription_id}'')] else [])
          @ [(INFO, ''Successfully fetched all match results.'')]"
    by blast
  note fin = recompute_done [OF jd run]
  have a: "result (get_all_match_results x d i) = Inr (serialized_matches all_matches)"
    by (rule fin(1))
  have "send_email_logged x (Some jd) message
      = [(ERROR, ''Error during send email notification agent {e}'')]"
    by (simp add: send_email_logged_def mail)
  then have b: "(ERROR, ''Error during send email notification agent {e}'')
      \<in> set (logs (get_all_match_results x d i))"
    by (simp add: fin(3) lg)
  from ws have "ws_job_description_id ws = i" by (auto simp: find_Some_iff)
  then have "ws_job_description_id (ws\<lparr>ws_progress := COMPLETED\<rparr>) = i" by simp
  from find_map_mark [where P = "\<lambda>w. ws_job_description_id w = i" and k = ws_id
      and g = "\<lambda>w. w\<lparr>ws_progress := COMPLETED\<rparr>", OF ws this]
  have "find (\<lambda>w. ws_job_description_id w = i)
      (workflow_statuses (store (get_all_match_results x d i))) = Some (ws\<lparr>ws_progress := COMPLETED\<rparr>)"
    by (simp add: fin(2) wf)
  then have c: "\<exists>ws. find (\<lambda>w. ws_job_description_id w = i)
              (workflow_statuses (store (get_all_match_results x d i))) = Some ws \<and>
           ws_progress ws = COMPLETED"
    by simp
  have e: "map (\<lambda>r. (mr_consultant_id r, mr_similarity_score r, mr_rank r))
           (filter (\<lambda>r. mr_job_description_id r = i) (match_results (store (get_all_match_results x d i))))
         = map (\<lambda>(idx, m). (cp_id (m_profile m), m_similarity_score m, int idx + 1))
             (enumerate 0 all_matches)"
    by (simp only: fin(2) mr fresh_rows_of_job)
  have f: "store (get_all_match_results x d i)
         = store (get_all_match_results (x\<lparr>send_email := (\<lambda>recipient subject body. Returns ())\<rparr>) d i)"
    by (simp add: get_all_match_results_def store_except_Exception send_email_irrelevant)
  have g: "result (get_all_match_results x d i)
         = result (get_all_match_results (x\<lparr>send_email := (\<lambda>recipient subject body. Returns ())\<rparr>) d i)"
    unfolding get_all_match_results_def
    by (rule result_except_Exception_cong) (simp add: send_email_irrelevant)
  from a b c e f g show ?thesis by blast
qed

theorem email_failure_is_swallowed_witness:
  "send_email example_ext ''requestor@example.com'' ''test'' (Some ''2 matches'') = Raises ''SMTPException'' \<and>
   result (get_all_match_results example_ext example_db 1)
     = Inr (serialized_matches
         [\<lparr>m_profile = consultant_C1, m_similarity_score = 9 / 10\<rparr>,
          \<lparr>m_profile = consultant_C2, m_similarity_score = 7 / 10\<rparr>]) \<and>
   (ERROR, ''Error during send email notification agent {e}'')
     \<in> set (logs (get_all_match_results example_ext example_db 1)) \<and>
   (\<exists>ws. find (\<lambda>w. ws_job_description_id w = 1)
            (workflow_statuses (store (get_all_match_results example_ext example_db 1))) = Some ws \<and>
         ws_progress ws = COMPLETED)"
proof -
  have jd: "find (\<lambda>j. jd_id j = 1) (job_descriptions example_db)
      = Some \<lparr>jd_id = 1, jd_requestor_email = ''requestor@example.com''\<rparr>"
    by (simp add: example_db_def)
  have run: "run_agent_matching example_ext (add_workflow_status example_db 1)
      (Some \<lparr>jd_id = 1, jd_requestor_email = ''requestor@example.com''\<rparr>)
      (available_profiles example_db)
      = Returns (Result (Some ''2 matches'')
          [\<lparr>m_profile = consultant_C1, m_similarity_score = 9 / 10\<rparr>,
           \<lparr>m_profile = consultant_C2, m_similarity_score = 7 / 10\<rparr>])"
    by (simp add: example_ext_def)
  have mail: "send_email example_ext
      (jd_requestor_email \<lparr>jd_id = 1, jd_requestor_email = ''requestor@example.com''\<rparr>)
      ''test'' (Some ''2 matches'') = Raises ''SMTPException''"
    by (simp add: example_ext_def)
  have mail0: "send_email example_ext ''requestor@example.com'' ''test'' (Some ''2 matches'')
      = Raises ''SMTPException''"
    by (simp add: example_ext_def)
  from mail0 email_failure_is_swallowed [OF jd run mail] show ?thesis by blast
qed

text \<open>
  Claim C2. With a matching routine that returns \<^verbatim>\<open>None\<close>, the body of
  \<^verbatim>\<open>get_all_match_results\<close> raises the 404 "Workflow status not found.", and the only
  handler of the operation, \<^verbatim>\<open>except Exception\<close>, turns it into the 500 that reaches
  the caller.
\<close>

theorem no_result_reaches_caller_as_500:
  "run_agent_matching example_ext_no_result (add_workflow_status example_db 1)
     (find (\<lambda>j. jd_id j = 1) (job_descriptions example_db)) (available_profiles example_db)
     = Returns NoResult \<and>
   result (get_all_match_results_try example_ext_no_result example_db 1)
     = Inl (HTTP (HTTPException 404 ''Workflow status not found.'')) \<and>
   result (get_all_match_results example_ext_no_result example_db 1)
     = Inl (HTTPException 500 ''An error occurred while fetching match results.'')"
proof -
  have h: "run_agent_matching example_ext_no_result (add_workflow_status example_db 1)
     (find (\<lambda>j. jd_id j = 1) (job_descriptions example_db)) (available_profiles example_db)
     = Returns NoResult"
    by (simp add: example_ext_no_result_def example_ext_def)
  from h recompute_no_result_is_500 [OF h] show ?thesis by simp
qed

lemma recompute_try_no_job_logs:
  "find (\<lambda>j. jd_id j = i) (job_descriptions d) = None \<Longrightarrow>
   (STDOUT, ''Job Descriptions or Profiles not found for Job ID: {jobDescription_id}'')
     \<in> set (logs (get_all_match_results_try x d i))"
  by (simp add: get_all_match_results_try_def Let_def
      split: call.splits matching.splits option.splits)

lemma logs_except_Exception: "set (logs out) \<subseteq> set (logs (except_Exception msg dtl out))"
  by (auto simp: except_Exception_def split: sum.splits)

text \<open>
  Claim C7. On the example store without its job description, with a matching routine
  that returns two matches, \<^verbatim>\<open>get_all_match_results\<close> prints the diagnostic and then
  fails: the caller receives the 500.
\<close>

theorem recompute_without_job_description:
  "find (\<lambda>j. jd_id j = 1) (job_descriptions example_db_no_job) = None \<and>
   run_agent_matching example_ext (add_workflow_status example_db_no_job 1) None
     (available_profiles example_db_no_job)
     = Returns (Result (Some ''2 matches'')
          [\<lparr>m_profile = consultant_C1, m_similarity_score = 9 / 10\<rparr>,
           \<lparr>m_profile = consultant_C2, m_similarity_score = 7 / 10\<rparr>]) \<and>
   (STDOUT, ''Job Descriptions or Profiles not found for Job ID: {jobDescription_id}'')
     \<in> set (logs (get_all_match_results example_ext example_db_no_job 1)) \<and>
   result (get_all_match_results example_ext example_db_no_job 1)
     = Inl (HTTPException 500 ''An error occurred while fetching match results.'')"
proof -
  have h: "find (\<lambda>j. jd_id j = 1) (job_descriptions example_db_no_job) = None"
    by (simp add: example_db_no_job_def)
  have r: "run_agent_matching example_ext (add_workflow_status example_db_no_job 1) None
     (available_profiles example_db_no_job)
     = Returns (Result (Some ''2 matches'')
          [\<lparr>m_profile = consultant_C1, m_similarity_score = 9 / 10\<rparr>,
           \<lparr>m_profile = consultant_C2, m_similarity_score = 7 / 10\<rparr>])"
    by (simp add: example_ext_def)
  have l: "(STDOUT, ''Job Descriptions or Profiles not found for Job ID: {jobDescription_id}'')
     \<in> set (logs (get_all_match_results example_ext example_db_no_job 1))"
    using recompute_try_no_job_logs [OF h, of example_ext] logs_except_Exception
    unfolding get_all_match_results_def by blast
  from h r l recompute_without_job_fails [OF h, of example_ext] show ?thesis by simp
qed

lemma recompute_with_empty_pool:
  assumes "find (\<lambda>j. jd_id j = i) (job_descriptions d) = Some jd"
      and "available_profiles d = []"
      and "run_agent_matching x (add_workflow_status d i) (Some jd) [] = Returns (Result message all_matches)"
  shows "result (get_all_match_results x d i) = Inr (serialized_matches all_matches) \<and>
     (STDOUT, ''Job Descriptions or Profiles not found for Job ID: {jobDescription_id}'')
       \<in> set (logs (get_all_match_results x d i))"
proof -
  from assms(2,3) have run: "run_agent_matching x (add_workflow_status d i) (Some jd)
      (available_profiles d) = Returns (Result message all_matches)"
    by simp
  from recompute_try_done [OF assms(1) run] recompute_done [OF assms(1) run] assms(2)
  show ?thesis by auto
qed

end
